theory Spec2Isabelle
  imports Complex_Main "HOL-Library.Sublist" "HOL-Library.Multiset" "HOL-Library.AList"
begin

section \<open>Dynamic values and Go maps\<close>

text \<open>
  A Go \<open>interface{}\<close> value, by the dynamic types the code switches on: the nil
  interface, \<open>string\<close>, the five numeric types \<open>validateNumberParameter\<close> names,
  \<open>bool\<close>, and the reflect kinds Map, Struct, Slice and Array; \<open>VMapSlice\<close> is the
  slice type \<open>[]map[string]interface{}\<close>, which the chat service asserts, and \<open>VOther\<close>
  is any other dynamic type. A finite float is its rational value (NaN and the infinities are left
  out). A \<open>map[string]interface{}\<close> is an association list with pairwise distinct keys;
  the order of the list is the order in which a \<open>range\<close> over the map visits the keys,
  which Go leaves unspecified.
\<close>

datatype govalue =
    VNil
  | VString string
  | VFloat64 rat
  | VFloat32 rat
  | VInt int
  | VInt32 int
  | VInt64 int
  | VBool bool
  | VMap "(string \<times> govalue) list"
  | VStruct "(string \<times> govalue) list"
  | VSlice "govalue list"
  | VArray "govalue list"
  | VMapSlice "(string \<times> govalue) list list"
  | VOther

type_synonym gomap = "(string \<times> govalue) list"

text \<open>The conversion \<open>int(f)\<close> of a finite float: truncation toward zero.\<close>

definition int_of_float :: "rat \<Rightarrow> int" where
  "int_of_float f = (if 0 \<le> f then \<lfloor>f\<rfloor> else \<lceil>f\<rceil>)"

section \<open>Strings\<close>

text \<open>
  \<open>strings.ToLower\<close> on ASCII text, \<open>strings.Contains\<close>, \<open>strings.Join\<close> and the
  \<open>%d\<close> verb of \<open>fmt.Sprintf\<close> on a count.
\<close>

definition lower_char :: "char \<Rightarrow> char" where
  "lower_char c =
     (case map_of (zip ''ABCDEFGHIJKLMNOPQRSTUVWXYZ'' ''abcdefghijklmnopqrstuvwxyz'') c of
        Some l \<Rightarrow> l
      | None \<Rightarrow> c)"

definition ToLower :: "string \<Rightarrow> string" where
  "ToLower s = map lower_char s"

fun Contains :: "string \<Rightarrow> string \<Rightarrow> bool" where
  "Contains [] substr = (substr = [])"
| "Contains (c # cs) substr = (prefix substr (c # cs) \<or> Contains cs substr)"

fun Join :: "string list \<Rightarrow> string \<Rightarrow> string" where
  "Join [] sep = []"
| "Join [x] sep = x"
| "Join (x # y # ys) sep = x @ sep @ Join (y # ys) sep"

definition digit_char :: "nat \<Rightarrow> char" where
  "digit_char d = ''0123456789'' ! d"

fun show_nat :: "nat \<Rightarrow> string" where
  "show_nat n = (if n < 10 then [digit_char n] else show_nat (n div 10) @ [digit_char (n mod 10)])"

declare show_nat.simps [simp del]

section \<open>Messages\<close>

text \<open>
  \<open>models.Message\<close> without its \<open>Session\<close> relationship. \<open>CreatedAt\<close> is a timestamp.
  The strategies take a slice of pointers; they read the messages and copy the
  pointers, so a message stands for the pointer to it.
\<close>

record Message =
  ID :: string
  SessionID :: string
  Role :: string
  Content :: string
  Metadata :: gomap
  CreatedAt :: int

text \<open>The composite literal \<open>&models.Message{Role: r, Content: c}\<close>: other fields zero.\<close>

definition new_message :: "string \<Rightarrow> string \<Rightarrow> Message" where
  "new_message r c =
     \<lparr>ID = [], SessionID = [], Role = r, Content = c, Metadata = [], CreatedAt = 0\<rparr>"

section \<open>Context strategies\<close>

definition buildSystemMessage :: "string \<Rightarrow> string \<Rightarrow> string" where
  "buildSystemMessage systemPrompt agentPrompt =
     (if systemPrompt = [] \<and> agentPrompt = [] then ''You are a helpful AI assistant.''
      else if systemPrompt = [] then agentPrompt
      else if agentPrompt = [] then systemPrompt
      else systemPrompt @ [CHR 0x0A, CHR 0x0A] @ agentPrompt)"



text \<open>
  \<open>extractTopics\<close> keeps its flags in a Go map and ranges over it twice. The first
  range only sets flags, so its order is immaterial; the second builds the result
  slice in the order of the range. \<open>order\<close> is that order: a permutation of the eight
  keys, chosen by the Go runtime at each call.
\<close>

definition topicWords :: "(string \<times> bool) list" where
  "topicWords =
     [(''code'', False), (''programming'', False), (''bug'', False), (''error'', False),
      (''help'', False), (''question'', False), (''problem'', False), (''solution'', False)]"

definition mark_topics :: "string \<Rightarrow> (string \<times> bool) list \<Rightarrow> (string \<times> bool) list" where
  "mark_topics content tw =
     map (\<lambda>(topic, found). (topic, if Contains content topic then True else found)) tw"

definition extractTopics :: "string list \<Rightarrow> Message list \<Rightarrow> string list" where
  "extractTopics order messages =
     (let tw = foldl (\<lambda>tw msg. mark_topics (ToLower (Content msg)) tw) topicWords messages
      in filter (\<lambda>topic. map_of tw topic = Some True) order)"

definition createSimpleSummary :: "string list \<Rightarrow> Message list \<Rightarrow> string" where
  "createSimpleSummary order messages =
     (if length messages = 0 then []
      else
        let userMessages = length (filter (\<lambda>msg. Role msg = ''user'') messages);
            assistantMessages = length (filter (\<lambda>msg. Role msg = ''assistant'') messages);
            summary = ''The conversation included '' @ show_nat userMessages
                      @ '' user messages and '' @ show_nat assistantMessages
                      @ '' assistant responses'';
            topics = extractTopics order messages;
            summary = (if length topics > 0
                       then summary @ ''. Topics discussed: '' @ Join topics '', ''
                       else summary)
        in summary @ ''.'')"

definition Summarize_BuildContext ::
  "string list \<Rightarrow> string \<Rightarrow> string \<Rightarrow> Message list \<Rightarrow> gomap \<Rightarrow> string + Message list" where
  "Summarize_BuildContext order systemPrompt agentPrompt messages config =
     (let maxContextLength = (case map_of config ''max_context_length'' of
                                Some (VInt mclInt) \<Rightarrow> mclInt
                              | Some (VFloat64 mclFloat) \<Rightarrow> int_of_float mclFloat
                              | _ \<Rightarrow> 20);
          keepRecent = (case map_of config ''keep_recent'' of
                          Some (VInt krInt) \<Rightarrow> krInt
                        | Some (VFloat64 krFloat) \<Rightarrow> int_of_float krFloat
                        | _ \<Rightarrow> 5)
      in if maxContextLength \<le> 0 \<or> keepRecent \<le> 0
         then Inl ''max_context_length and keep_recent must be positive''
         else
           let contextMessages = [new_message ''system'' (buildSystemMessage systemPrompt agentPrompt)]
           in if int (length messages) \<le> maxContextLength then Inr (contextMessages @ messages)
              else
                let messagesToSummarize = int (length messages) - keepRecent
                in if messagesToSummarize \<le> 0 then Inr (contextMessages @ messages)
                   else
                     let oldMessages = take (nat messagesToSummarize) messages;
                         recentMessages = drop (nat messagesToSummarize) messages;
                         summary = createSimpleSummary order oldMessages;
                         contextMessages =
                           (if summary \<noteq> []
                            then contextMessages @
                                 [new_message ''system'' (''Previous conversation summary: '' @ summary)]
                            else contextMessages)
                     in Inr (contextMessages @ recentMessages))"

section \<open>Tool schemas and validation\<close>

text \<open>
  \<open>Default\<close> is an \<open>interface{}\<close>: \<open>VNil\<close> when no default is declared. \<open>Minimum\<close> and
  \<open>Maximum\<close> are \<open>*float64\<close>: \<open>None\<close> when nil. The schema's \<open>Examples\<close> are read by no
  function modelled here and are left out.
\<close>

record Parameter =
  Name :: string
  Type :: string
  Description :: string
  Required :: bool
  Default :: "govalue"
  Enum :: "string list"
  Minimum :: "rat option"
  Maximum :: "rat option"
  Pattern :: string

record Schema =
  Schema_Name :: string
  Schema_Description :: string
  Parameters :: "Parameter list"

record ValidationError =
  VE_Parameter :: string
  VE_Message :: string
  VE_Value :: "govalue"

definition NewValidationError :: "string \<Rightarrow> string \<Rightarrow> govalue \<Rightarrow> ValidationError" where
  "NewValidationError parameter message v =
     \<lparr>VE_Parameter = parameter, VE_Message = message, VE_Value = v\<rparr>"

text \<open>
  The standard-library functions the validator calls, taken as given:
  \<open>regexp.MatchString pattern s\<close> (\<open>None\<close> when the pattern does not compile),
  \<open>strconv.ParseFloat s 64\<close> (\<open>None\<close> on a parse error; strings that parse to NaN or
  an infinity are outside the model), and the \<open>%g\<close> and \<open>%v\<close> verbs of \<open>fmt.Sprintf\<close>.
  The conversion \<open>float64(v)\<close> of an integer is taken exact.
\<close>

record stdlib =
  MatchString :: "string \<Rightarrow> string \<Rightarrow> bool option"
  ParseFloat :: "string \<Rightarrow> rat option"
  Sprint_g :: "rat \<Rightarrow> string"
  Sprint_v :: "govalue \<Rightarrow> string"

fun findParameter :: "Parameter list \<Rightarrow> string \<Rightarrow> Parameter option" where
  "findParameter [] name = None"
| "findParameter (param # parameters) name =
     (if Name param = name then Some param else findParameter parameters name)"

definition validateStringParameter ::
  "stdlib \<Rightarrow> Parameter \<Rightarrow> govalue \<Rightarrow> ValidationError option" where
  "validateStringParameter lib param v =
     (case v of
        VString str \<Rightarrow>
          if length (Enum param) > 0 \<and> str \<notin> set (Enum param)
          then Some (NewValidationError (Name param)
                       (''value must be one of: '' @ Join (Enum param) '', '') v)
          else if Pattern param \<noteq> []
          then (case MatchString lib (Pattern param) str of
                  None \<Rightarrow> Some (NewValidationError (Name param)
                                  (''invalid regex pattern: '' @ Pattern param) v)
                | Some matched \<Rightarrow>
                    if \<not> matched
                    then Some (NewValidationError (Name param)
                                 (''value does not match pattern: '' @ Pattern param) v)
                    else None)
          else None
      | _ \<Rightarrow> Some (NewValidationError (Name param) ''expected string value'' v))"

definition number_of_value :: "stdlib \<Rightarrow> govalue \<Rightarrow> rat option" where
  "number_of_value lib v =
     (case v of
        VFloat64 x \<Rightarrow> Some x
      | VFloat32 x \<Rightarrow> Some x
      | VInt x \<Rightarrow> Some (of_int x)
      | VInt32 x \<Rightarrow> Some (of_int x)
      | VInt64 x \<Rightarrow> Some (of_int x)
      | VString x \<Rightarrow> ParseFloat lib x
      | _ \<Rightarrow> None)"

definition validateNumberParameter ::
  "stdlib \<Rightarrow> Parameter \<Rightarrow> govalue \<Rightarrow> ValidationError option" where
  "validateNumberParameter lib param v =
     (case number_of_value lib v of
        None \<Rightarrow> Some (NewValidationError (Name param) ''expected number value'' v)
      | Some num \<Rightarrow>
          let check_maximum =
                (case Maximum param of
                   Some maximum \<Rightarrow>
                     if num > maximum
                     then Some (NewValidationError (Name param)
                                  (''value must be <= '' @ Sprint_g lib maximum) v)
                     else None
                 | None \<Rightarrow> None)
          in (case Minimum param of
                Some minimum \<Rightarrow>
                  if num < minimum
                  then Some (NewValidationError (Name param)
                               (''value must be >= '' @ Sprint_g lib minimum) v)
                  else check_maximum
              | None \<Rightarrow> check_maximum))"

definition validateBooleanParameter :: "Parameter \<Rightarrow> govalue \<Rightarrow> ValidationError option" where
  "validateBooleanParameter param v =
     (case v of
        VBool b \<Rightarrow> None
      | VString x \<Rightarrow>
          let lower = ToLower x
          in if lower = ''true'' \<or> lower = ''false'' then None
             else Some (NewValidationError (Name param) ''expected boolean value'' v)
      | _ \<Rightarrow> Some (NewValidationError (Name param) ''expected boolean value'' v))"

definition validateObjectParameter :: "Parameter \<Rightarrow> govalue \<Rightarrow> ValidationError option" where
  "validateObjectParameter param v =
     (case v of
        VMap m \<Rightarrow> None
      | VStruct fs \<Rightarrow> None
      | _ \<Rightarrow> Some (NewValidationError (Name param) ''expected object value'' v))"

definition validateArrayParameter :: "Parameter \<Rightarrow> govalue \<Rightarrow> ValidationError option" where
  "validateArrayParameter param v =
     (case v of
        VSlice xs \<Rightarrow> None
      | VArray xs \<Rightarrow> None
      | VMapSlice ms \<Rightarrow> None
      | _ \<Rightarrow> Some (NewValidationError (Name param) ''expected array value'' v))"

definition validateParameter :: "stdlib \<Rightarrow> Parameter \<Rightarrow> govalue \<Rightarrow> ValidationError option" where
  "validateParameter lib param v =
     (if v = VNil
      then (if Required param
            then Some (NewValidationError (Name param) ''required parameter cannot be nil'' v)
            else None)
      else if Type param = ''string'' then validateStringParameter lib param v
      else if Type param = ''number'' then validateNumberParameter lib param v
      else if Type param = ''boolean'' then validateBooleanParameter param v
      else if Type param = ''object'' then validateObjectParameter param v
      else if Type param = ''array'' then validateArrayParameter param v
      else Some (NewValidationError (Name param)
                   (''unsupported parameter type: '' @ Type param) v))"

text \<open>
  \<open>ValidateInput\<close> is two loops. The first runs over the schema's parameters and
  returns at the first required one whose key is absent from the input. The second
  ranges over the input map, in the order of the association list, and returns at
  the first entry that is unknown or fails \<open>validateParameter\<close>. \<open>None\<close> is the nil
  error.
\<close>

fun check_required :: "Parameter list \<Rightarrow> gomap \<Rightarrow> ValidationError option" where
  "check_required [] input = None"
| "check_required (param # parameters) input =
     (if Required param \<and> map_of input (Name param) = None
      then Some (NewValidationError (Name param) ''required parameter missing'' VNil)
      else check_required parameters input)"

fun validate_provided ::
  "stdlib \<Rightarrow> Parameter list \<Rightarrow> (string \<times> govalue) list \<Rightarrow> ValidationError option" where
  "validate_provided lib parameters [] = None"
| "validate_provided lib parameters ((key, v) # rest) =
     (case findParameter parameters key of
        None \<Rightarrow> Some (NewValidationError key ''unknown parameter'' v)
      | Some param \<Rightarrow>
          (case validateParameter lib param v of
             Some err \<Rightarrow> Some err
           | None \<Rightarrow> validate_provided lib parameters rest))"

definition ValidateInput :: "stdlib \<Rightarrow> Schema \<Rightarrow> gomap \<Rightarrow> ValidationError option" where
  "ValidateInput lib schema input =
     (case check_required (Parameters schema) input of
        Some err \<Rightarrow> Some err
      | None \<Rightarrow> validate_provided lib (Parameters schema) input)"

section \<open>Sanitizing\<close>

text \<open>
  \<open>convertValue\<close> returns \<open>(value, error)\<close>: \<open>Inl\<close> the error text. \<open>SanitizeInput\<close>
  builds a fresh map, written to and returned but never ranged over: a partial
  function from keys to values.
\<close>

definition convertValue :: "stdlib \<Rightarrow> string \<Rightarrow> govalue \<Rightarrow> string + govalue" where
  "convertValue lib expectedType v =
     (if v = VNil then Inr VNil
      else if expectedType = ''string''
      then (case v of
              VString str \<Rightarrow> Inr (VString str)
            | _ \<Rightarrow> Inr (VString (Sprint_v lib v)))
      else if expectedType = ''number''
      then (case v of
              VFloat64 x \<Rightarrow> Inr v
            | VFloat32 x \<Rightarrow> Inr v
            | VInt x \<Rightarrow> Inr v
            | VInt32 x \<Rightarrow> Inr v
            | VInt64 x \<Rightarrow> Inr v
            | VString x \<Rightarrow>
                (case ParseFloat lib x of
                   Some parsed \<Rightarrow> Inr (VFloat64 parsed)
                 | None \<Rightarrow> Inl ''cannot convert to number'')
            | _ \<Rightarrow> Inl ''cannot convert to number'')
      else if expectedType = ''boolean''
      then (case v of
              VBool b \<Rightarrow> Inr (VBool b)
            | VString x \<Rightarrow>
                let lower = ToLower x
                in if lower = ''true'' then Inr (VBool True)
                   else if lower = ''false'' then Inr (VBool False)
                   else Inl ''cannot convert to boolean''
            | _ \<Rightarrow> Inl ''cannot convert to boolean'')
      else if expectedType = ''object'' \<or> expectedType = ''array'' then Inr v
      else Inr v)"

fun sanitize_loop ::
  "stdlib \<Rightarrow> Parameter list \<Rightarrow> gomap \<Rightarrow> (string \<rightharpoonup> govalue)
     \<Rightarrow> ValidationError + (string \<rightharpoonup> govalue)" where
  "sanitize_loop lib [] input sanitized = Inr sanitized"
| "sanitize_loop lib (param # parameters) input sanitized =
     (case map_of input (Name param) of
        None \<Rightarrow>
          if Default param \<noteq> VNil
          then sanitize_loop lib parameters input (sanitized(Name param \<mapsto> Default param))
          else sanitize_loop lib parameters input sanitized
      | Some v \<Rightarrow>
          (case convertValue lib (Type param) v of
             Inl err \<Rightarrow> Inl (NewValidationError (Name param) err v)
           | Inr converted \<Rightarrow>
               sanitize_loop lib parameters input (sanitized(Name param \<mapsto> converted))))"

definition SanitizeInput ::
  "stdlib \<Rightarrow> Schema \<Rightarrow> gomap \<Rightarrow> ValidationError + (string \<rightharpoonup> govalue)" where
  "SanitizeInput lib schema input = sanitize_loop lib (Parameters schema) input Map.empty"

section \<open>What the specification asks of a supplied value\<close>

text \<open>
  The specification's reading of ``a value of the declared type satisfying its
  constraints'', written from its words and not from the validator: a string within
  the enumeration and matching the pattern, a number of one of the numeric types
  within the declared bounds, a boolean, an object, an array.
\<close>

definition in_range :: "Parameter \<Rightarrow> rat \<Rightarrow> bool" where
  "in_range param num =
     ((case Minimum param of Some minimum \<Rightarrow> minimum \<le> num | None \<Rightarrow> True) \<and>
      (case Maximum param of Some maximum \<Rightarrow> num \<le> maximum | None \<Rightarrow> True))"

definition conforms :: "stdlib \<Rightarrow> Parameter \<Rightarrow> govalue \<Rightarrow> bool" where
  "conforms lib param v =
     (if Type param = ''string''
      then (case v of
              VString str \<Rightarrow>
                (Enum param = [] \<or> str \<in> set (Enum param)) \<and>
                (Pattern param = [] \<or> MatchString lib (Pattern param) str = Some True)
            | _ \<Rightarrow> False)
      else if Type param = ''number''
      then (case v of
              VFloat64 x \<Rightarrow> in_range param x
            | VFloat32 x \<Rightarrow> in_range param x
            | VInt x \<Rightarrow> in_range param (of_int x)
            | VInt32 x \<Rightarrow> in_range param (of_int x)
            | VInt64 x \<Rightarrow> in_range param (of_int x)
            | _ \<Rightarrow> False)
      else if Type param = ''boolean'' then (case v of VBool b \<Rightarrow> True | _ \<Rightarrow> False)
      else if Type param = ''object''
      then (case v of VMap m \<Rightarrow> True | VStruct fs \<Rightarrow> True | _ \<Rightarrow> False)
      else if Type param = ''array''
      then (case v of VSlice xs \<Rightarrow> True | VArray xs \<Rightarrow> True | VMapSlice ms \<Rightarrow> True
            | _ \<Rightarrow> False)
      else False)"

text \<open>
  A fixed standard library for evaluating concrete inputs. It compiles no pattern and
  parses no numeral; the inputs evaluated with it declare no pattern and supply no
  number or string where the validator would consult it.
\<close>

definition stdlib_fixture :: stdlib where
  "stdlib_fixture =
     \<lparr>MatchString = (\<lambda>pattern s. None), ParseFloat = (\<lambda>s. None),
      Sprint_g = (\<lambda>x. []), Sprint_v = (\<lambda>v. [])\<rparr>"

section \<open>Tool execution\<close>



























section \<open>The tool service\<close>



record ToolCallResult =
  TCR_ID :: string
  TCR_ToolName :: string
  TCR_Success :: bool
  TCR_Result :: govalue
  TCR_Error :: string
  TCR_Duration :: int










section \<open>The chat service\<close>





record EnhancedChatResponse =
  UserMessageID :: string
  AssistantMessageID :: string
  Response :: string
  ToolCalls :: "ToolCallResult list"
  ECR_Metadata :: gomap
  FinishReason :: string














text \<open>
  The errors \<open>processWithToolCalls\<close> returns, one for each \<open>return nil, fmt.Errorf(...)\<close>
  in the order of the source, with the text the format wraps. The last is the error
  after the loop, ``exceeded maximum tool call iterations''.
\<close>

datatype turn_error =
    MessageHistoryFailed string
  | UnknownContextStrategy string
  | BuildContextFailed string
  | UnsupportedProvider string
  | ProviderNotAvailable string
  | LLMRequestFailed string
  | SaveAssistantFailed string
  | ExecuteToolCallsFailed string
  | SaveAssistantWithToolCallsFailed string
  | MaxIterationsExceeded

text \<open>
  What one pass through the body of the loop comes to: a return with an error, a
  return with the final response, or the end of the body with the new conversation
  and the tool calls gathered so far.
\<close>

datatype step =
    Abort turn_error
  | Final EnhancedChatResponse
  | Next "Message list" "ToolCallResult list"













section \<open>Properties of the context strategies\<close>







text \<open>
  Claim C6 at a concrete input. A history of three messages whose two oldest mention
  ``bug'' and ``error'', under \<open>max_context_length = 2\<close> and \<open>keep_recent = 1\<close>: two
  calls of Summarize with the same prompts, history and configuration, whose ranges
  over the topic map visit the keys in two different orders, return different message
  lists (the summary lists the topics as ``bug, error'' in one and ``error, bug'' in
  the other).
\<close>

theorem summarize_depends_on_map_order:
  "Summarize_BuildContext
      [''code'', ''programming'', ''bug'', ''error'', ''help'', ''question'', ''problem'', ''solution'']
      ''S'' []
      [new_message ''user'' ''a Bug'', new_message ''assistant'' ''an error'', new_message ''user'' ''ok'']
      [(''max_context_length'', VInt 2), (''keep_recent'', VInt 1)]
   \<noteq> Summarize_BuildContext
      [''solution'', ''problem'', ''question'', ''help'', ''error'', ''bug'', ''programming'', ''code'']
      ''S'' []
      [new_message ''user'' ''a Bug'', new_message ''assistant'' ''an error'', new_message ''user'' ''ok'']
      [(''max_context_length'', VInt 2), (''keep_recent'', VInt 1)]"
  by (simp add: Summarize_BuildContext_def buildSystemMessage_def createSimpleSummary_def
      extractTopics_def mark_topics_def topicWords_def ToLower_def lower_char_def
      new_message_def show_nat.simps digit_char_def)

section \<open>Properties of validation\<close>

lemma conforms_validateParameter:
  "conforms lib param v \<Longrightarrow> validateParameter lib param v = None"
  unfolding conforms_def validateParameter_def
  by (auto simp: validateStringParameter_def validateNumberParameter_def number_of_value_def
      validateBooleanParameter_def validateObjectParameter_def validateArrayParameter_def
      in_range_def Let_def
      split: govalue.splits if_splits option.splits)

lemma nil_validateParameter:
  "\<not> Required param \<Longrightarrow> validateParameter lib param VNil = None"
  by (simp add: validateParameter_def)

lemma check_required_missing:
  "param \<in> set parameters \<Longrightarrow> Required param \<Longrightarrow> map_of input (Name param) = None \<Longrightarrow>
   \<exists>err. check_required parameters input = Some err \<and> VE_Message err = ''required parameter missing''"
  by (induction parameters) (auto simp: NewValidationError_def)

lemma check_required_present:
  "(\<And>param. param \<in> set parameters \<Longrightarrow> Required param \<Longrightarrow> map_of input (Name param) \<noteq> None) \<Longrightarrow>
   check_required parameters input = None"
  by (induction parameters) auto

lemma findParameter_Some:
  "findParameter parameters name = Some param \<Longrightarrow> param \<in> set parameters \<and> Name param = name"
  by (induction parameters) (auto split: if_splits)

lemma findParameter_None:
  "findParameter parameters name = None \<Longrightarrow> name \<notin> Name ` set parameters"
  by (induction parameters) (auto split: if_splits)

lemma validate_provided_ok:
  "(\<And>key v. (key, v) \<in> set entries \<Longrightarrow> key \<in> Name ` set parameters) \<Longrightarrow>
   (\<And>key v param. (key, v) \<in> set entries \<Longrightarrow> param \<in> set parameters \<Longrightarrow> Name param = key \<Longrightarrow>
        validateParameter lib param v = None) \<Longrightarrow>
   validate_provided lib parameters entries = None"
proof (induction entries)
  case Nil
  then show ?case by simp
next
  case (Cons e entries)
  obtain key v where e: "e = (key, v)" by (cases e)
  have "key \<in> Name ` set parameters" using Cons.prems(1)[of key v] e by simp
  then obtain param where f: "findParameter parameters key = Some param"
    using findParameter_None[of parameters key] by (cases "findParameter parameters key") auto
  then have "validateParameter lib param v = None"
    using Cons.prems(2)[of key v param] findParameter_Some[OF f] e by simp
  moreover have "validate_provided lib parameters entries = None"
    using Cons by (metis list.set_intros(2))
  ultimately show ?case using e f by simp
qed


text \<open>
  Claim C9, as the spec states it, fails on an optional parameter: the schema declares
  a required string \<open>text\<close> and an optional number \<open>count\<close>; the input supplies the
  required parameter with a conforming value and has no key outside the schema, but
  binds \<open>count\<close> to a boolean. \<open>ValidateInput\<close> returns a \<open>ValidationError\<close>.
\<close>

theorem validate_optional_value_counterexample:
  "ValidateInput stdlib_fixture
     \<lparr>Schema_Name = ''t'', Schema_Description = [],
      Parameters =
        [\<lparr>Name = ''text'', Type = ''string'', Description = [], Required = True,
          Default = VNil, Enum = [], Minimum = None, Maximum = None, Pattern = []\<rparr>,
         \<lparr>Name = ''count'', Type = ''number'', Description = [], Required = False,
          Default = VNil, Enum = [], Minimum = None, Maximum = None, Pattern = []\<rparr>]\<rparr>
     [(''text'', VString ''hello''), (''count'', VBool True)]
   = Some (NewValidationError ''count'' ''expected number value'' (VBool True))"
  by (simp add: ValidateInput_def validateParameter_def validateStringParameter_def
      validateNumberParameter_def number_of_value_def)

text \<open>
  Claim C9, amended. For every schema and every standard library: \<open>ValidateInput\<close>
  returns a \<open>ValidationError\<close> for any input that lacks the key of a required
  parameter, whatever the other entries are; and it returns no error for any input
  that has the key of every required parameter, has no key outside the schema's
  parameter names, and binds every key it has, of a required or an optional
  parameter, to a value of the declared type satisfying its constraints (or to nil,
  for an optional parameter).
\<close>

theorem validate_sound:
  "(\<forall>param \<in> set (Parameters schema).
        Required param \<and> map_of input (Name param) = None \<longrightarrow>
        (\<exists>err. ValidateInput lib schema input = Some err))
   \<and> ((\<forall>param \<in> set (Parameters schema). Required param \<longrightarrow> map_of input (Name param) \<noteq> None)
        \<and> (\<forall>(key, v) \<in> set input. key \<in> Name ` set (Parameters schema))
        \<and> (\<forall>(key, v) \<in> set input. \<forall>param \<in> set (Parameters schema).
               Name param = key \<longrightarrow> (v = VNil \<and> \<not> Required param) \<or> conforms lib param v)
       \<longrightarrow> ValidateInput lib schema input = None)"
proof (intro conjI ballI impI)
  fix param
  assume "param \<in> set (Parameters schema)" "Required param \<and> map_of input (Name param) = None"
  then obtain err where "check_required (Parameters schema) input = Some err"
    using check_required_missing by blast
  then show "\<exists>err. ValidateInput lib schema input = Some err"
    by (simp add: ValidateInput_def)
next
  assume a: "(\<forall>param \<in> set (Parameters schema). Required param \<longrightarrow> map_of input (Name param) \<noteq> None)
        \<and> (\<forall>(key, v) \<in> set input. key \<in> Name ` set (Parameters schema))
        \<and> (\<forall>(key, v) \<in> set input. \<forall>param \<in> set (Parameters schema).
               Name param = key \<longrightarrow> (v = VNil \<and> \<not> Required param) \<or> conforms lib param v)"
  have r: "check_required (Parameters schema) input = None"
    using a by (intro check_required_present) blast
  have p: "validate_provided lib (Parameters schema) input = None"
  proof (rule validate_provided_ok)
    fix key v assume "(key, v) \<in> set input"
    then show "key \<in> Name ` set (Parameters schema)" using a by blast
  next
    fix key v param
    assume "(key, v) \<in> set input" "param \<in> set (Parameters schema)" "Name param = key"
    then have "(v = VNil \<and> \<not> Required param) \<or> conforms lib param v" using a by blast
    then show "validateParameter lib param v = None"
      by (auto simp: nil_validateParameter conforms_validateParameter)
  qed
  show "ValidateInput lib schema input = None"
    by (simp add: ValidateInput_def r p)
qed

theorem validate_sound_witness:
  "ValidateInput stdlib_fixture
     \<lparr>Schema_Name = ''t'', Schema_Description = [],
      Parameters =
        [\<lparr>Name = ''text'', Type = ''string'', Description = [], Required = True,
          Default = VNil, Enum = [''hello'', ''bye''], Minimum = None, Maximum = None,
          Pattern = []\<rparr>,
         \<lparr>Name = ''count'', Type = ''number'', Description = [], Required = False,
          Default = VNil, Enum = [], Minimum = Some 0, Maximum = Some 10, Pattern = []\<rparr>]\<rparr>
     [(''count'', VInt 3)] \<noteq> None
   \<and> ValidateInput stdlib_fixture
     \<lparr>Schema_Name = ''t'', Schema_Description = [],
      Parameters =
        [\<lparr>Name = ''text'', Type = ''string'', Description = [], Required = True,
          Default = VNil, Enum = [''hello'', ''bye''], Minimum = None, Maximum = None,
          Pattern = []\<rparr>,
         \<lparr>Name = ''count'', Type = ''number'', Description = [], Required = False,
          Default = VNil, Enum = [], Minimum = Some 0, Maximum = Some 10, Pattern = []\<rparr>]\<rparr>
     [(''text'', VString ''hello''), (''count'', VInt 3)] = None"
  using
    validate_sound [of
      "\<lparr>Schema_Name = ''t'', Schema_Description = [],
        Parameters =
          [\<lparr>Name = ''text'', Type = ''string'', Description = [], Required = True,
            Default = VNil, Enum = [''hello'', ''bye''], Minimum = None, Maximum = None,
            Pattern = []\<rparr>,
           \<lparr>Name = ''count'', Type = ''number'', Description = [], Required = False,
            Default = VNil, Enum = [], Minimum = Some 0, Maximum = Some 10, Pattern = []\<rparr>]\<rparr>"
      "[(''count'', VInt 3)]" stdlib_fixture]
    validate_sound [of
      "\<lparr>Schema_Name = ''t'', Schema_Description = [],
        Parameters =
          [\<lparr>Name = ''text'', Type = ''string'', Description = [], Required = True,
            Default = VNil, Enum = [''hello'', ''bye''], Minimum = None, Maximum = None,
            Pattern = []\<rparr>,
           \<lparr>Name = ''count'', Type = ''number'', Description = [], Required = False,
            Default = VNil, Enum = [], Minimum = Some 0, Maximum = Some 10, Pattern = []\<rparr>]\<rparr>"
      "[(''text'', VString ''hello''), (''count'', VInt 3)]" stdlib_fixture]
  by (simp add: conforms_def in_range_def)

section \<open>Properties of sanitizing\<close>

lemma sanitize_loop_dom:
  "sanitize_loop lib parameters input acc = Inr sanitized \<Longrightarrow>
   dom sanitized \<subseteq> dom acc \<union> Name ` set parameters"
proof (induction parameters arbitrary: acc)
  case Nil
  then show ?case by simp
next
  case (Cons param parameters)
  then show ?case
    by (fastforce split: option.splits if_splits sum.splits)
qed

lemma sanitize_loop_other:
  "sanitize_loop lib parameters input acc = Inr sanitized \<Longrightarrow>
   name \<notin> Name ` set parameters \<Longrightarrow> sanitized name = acc name"
proof (induction parameters arbitrary: acc)
  case Nil
  then show ?case by simp
next
  case (Cons param parameters)
  then show ?case
    by (fastforce split: option.splits if_splits sum.splits)
qed

lemma sanitize_loop_absent:
  "sanitize_loop lib parameters input acc = Inr sanitized \<Longrightarrow>
   distinct (map Name parameters) \<Longrightarrow> param \<in> set parameters \<Longrightarrow>
   map_of input (Name param) = None \<Longrightarrow>
   sanitized (Name param) = (if Default param \<noteq> VNil then Some (Default param) else acc (Name param))"
proof (induction parameters arbitrary: acc)
  case Nil
  then show ?case by simp
next
  case (Cons p parameters)
  show ?case
  proof (cases "param = p")
    case True
    have notin: "Name p \<notin> Name ` set parameters" using Cons.prems(2) by auto
    show ?thesis
    proof (cases "Default p = VNil")
      case d: True
      then have "sanitize_loop lib parameters input acc = Inr sanitized"
        using Cons.prems(1,4) True by simp
      from sanitize_loop_other[OF this notin] show ?thesis using True d by simp
    next
      case d: False
      then have "sanitize_loop lib parameters input (acc(Name p \<mapsto> Default p)) = Inr sanitized"
        using Cons.prems(1,4) True by simp
      from sanitize_loop_other[OF this notin] show ?thesis using True d by simp
    qed
  next
    case False
    then have in_rest: "param \<in> set parameters" using Cons.prems(3) by simp
    then have ne: "Name param \<noteq> Name p" using Cons.prems(2) by (auto simp: image_iff)
    have d: "distinct (map Name parameters)" using Cons.prems(2) by simp
    from Cons.prems(1) obtain acc' where
      step: "sanitize_loop lib parameters input acc' = Inr sanitized"
      and acc': "acc' (Name param) = acc (Name param)"
      using ne by (auto split: option.splits if_splits sum.splits)
    show ?thesis
      using Cons.IH[OF step d in_rest Cons.prems(4)] acc' by simp
  qed
qed

lemma sanitize_loop_undeclared:
  "key \<notin> Name ` set parameters \<Longrightarrow>
   sanitize_loop lib parameters ((key, v) # input) acc = sanitize_loop lib parameters input acc"
  by (induction parameters arbitrary: acc) (auto split: option.splits sum.splits)

text \<open>
  Claim C10. For every schema with pairwise distinct parameter names and every input
  on which \<open>SanitizeInput\<close> returns a map: every key of the map is a declared
  parameter name; every declared parameter absent from the input is bound to its
  default when it declares one and is not in the map when it declares none; and an
  input key that the schema does not declare is dropped without an error, the result
  being the same map with or without it.
\<close>

theorem sanitize_keys:
  assumes "SanitizeInput lib schema input = Inr sanitized"
    and "distinct (map Name (Parameters schema))"
  shows "dom sanitized \<subseteq> Name ` set (Parameters schema)
     \<and> (\<forall>param \<in> set (Parameters schema). map_of input (Name param) = None \<longrightarrow>
           sanitized (Name param) = (if Default param \<noteq> VNil then Some (Default param) else None))
     \<and> (\<forall>key v. key \<notin> Name ` set (Parameters schema) \<longrightarrow>
           SanitizeInput lib schema ((key, v) # input) = Inr sanitized)"
  using assms sanitize_loop_dom[of lib "Parameters schema" input Map.empty sanitized]
    sanitize_loop_absent[of lib "Parameters schema" input Map.empty sanitized]
    sanitize_loop_undeclared[of _ "Parameters schema" lib _ input Map.empty]
  unfolding SanitizeInput_def by auto

theorem sanitize_keys_witness:
  "dom [''text'' \<mapsto> VString ''hi'', ''count'' \<mapsto> VInt 10]
     \<subseteq> {''text'', ''count'', ''flag''}
   \<and> SanitizeInput stdlib_fixture
        \<lparr>Schema_Name = ''t'', Schema_Description = [],
         Parameters =
           [\<lparr>Name = ''text'', Type = ''string'', Description = [], Required = True,
             Default = VNil, Enum = [], Minimum = None, Maximum = None, Pattern = []\<rparr>,
            \<lparr>Name = ''count'', Type = ''number'', Description = [], Required = False,
             Default = VInt 10, Enum = [], Minimum = None, Maximum = None, Pattern = []\<rparr>,
            \<lparr>Name = ''flag'', Type = ''boolean'', Description = [], Required = False,
             Default = VNil, Enum = [], Minimum = None, Maximum = None, Pattern = []\<rparr>]\<rparr>
        [(''extra'', VInt 1), (''text'', VString ''hi'')]
      = Inr [''text'' \<mapsto> VString ''hi'', ''count'' \<mapsto> VInt 10]"
  using
    sanitize_keys [of stdlib_fixture
      "\<lparr>Schema_Name = ''t'', Schema_Description = [],
        Parameters =
          [\<lparr>Name = ''text'', Type = ''string'', Description = [], Required = True,
            Default = VNil, Enum = [], Minimum = None, Maximum = None, Pattern = []\<rparr>,
           \<lparr>Name = ''count'', Type = ''number'', Description = [], Required = False,
            Default = VInt 10, Enum = [], Minimum = None, Maximum = None, Pattern = []\<rparr>,
           \<lparr>Name = ''flag'', Type = ''boolean'', Description = [], Required = False,
            Default = VNil, Enum = [], Minimum = None, Maximum = None, Pattern = []\<rparr>]\<rparr>"
      "[(''text'', VString ''hi'')]"
      "[''text'' \<mapsto> VString ''hi'', ''count'' \<mapsto> VInt 10]"]
  by (simp add: SanitizeInput_def convertValue_def)

section \<open>Properties of tool execution\<close>













section \<open>Panics, nil results and timeouts\<close>







section \<open>Properties of the conversation loop\<close>


















end
